theory Spec2Isabelle
  imports Main
begin

section \<open>Data model of the profile page (src/pages/Profile.tsx)\<close>

text \<open>
  A field of a profile row or of the edit form holds a string, \<open>null\<close> (an empty database
  column, or a photo removed with \<open>form.setValue("avatar_url", null)\<close>) or \<open>undefined\<close>
  (a property that is absent, as every property of \<open>profile?.x\<close> is while the query has no
  data). On these values JavaScript's \<open>!==\<close> is structural inequality.
\<close>

datatype jsval = Undefined | Null | Str string

text \<open>Truthiness, as tested by \<open>if (values.avatar_url)\<close>: only a non-empty string is truthy.\<close>

fun truthy :: "jsval \<Rightarrow> bool" where
  "truthy (Str s) = (s \<noteq> [])"
| "truthy Undefined = False"
| "truthy Null = False"

text \<open>
  The fields the page reads from a profile row and the fields of the edit form
  (\<open>defaultValues\<close>, lines 35-50), with the restricted-field timestamp
  \<open>basic_info_updated_at\<close> that the mutator assigns (line 190). The same record serves
  for the row returned by the loader and for the values handed to the mutator.
\<close>

record profile_values =
  full_name :: jsval
  email :: jsval
  phone :: jsval
  birth_date :: jsval
  street :: jsval
  house_number :: jsval
  city :: jsval
  postal_code :: jsval
  avatar_url :: jsval
  cover_url :: jsval
  username :: jsval
  bio :: jsval
  website :: jsval
  status :: jsval
  basic_info_updated_at :: jsval

text \<open>
  \<open>profile?.f\<close>: the cached profile is \<open>None\<close> while the query has produced no row, and
  optional chaining then yields \<open>undefined\<close>.
\<close>

definition opt_field :: "(profile_values \<Rightarrow> jsval) \<Rightarrow> profile_values option \<Rightarrow> jsval" where
  "opt_field f profile = (case profile of None \<Rightarrow> Undefined | Some p \<Rightarrow> f p)"

text \<open>\<open>session.user.id\<close> is all the page uses of a session.\<close>

record session =
  user_id :: string

text \<open>
  What the page throws: \<open>new Error(message)\<close>, or the error object of a backend response
  thrown as it is (\<open>throw error\<close>, \<open>throw checkError\<close>).
\<close>

datatype exn = JsError string | BackendError string

text \<open>A backend response \<open>{ data, error }\<close>; \<open>None\<close> is \<open>null\<close>.\<close>

record 'a response =
  data :: "'a option"
  error :: "string option"

text \<open>
  The external collaborators, as the page consumes them: the session store, the tables,
  the remote procedure \<open>can_update_basic_info\<close> and the clock. The backend's state is the
  parameter \<open>'db\<close>; only the write to \<open>profiles\<close> returns a new one. \<open>'p\<close> is the type of
  a product row.
\<close>

record ('db, 'p) env =
  auth_getSession :: "session option"
  profiles_select :: "string \<Rightarrow> 'db \<Rightarrow> profile_values response"
  products_select :: "string \<Rightarrow> 'db \<Rightarrow> 'p list response"
  rpc_can_update_basic_info :: "string \<Rightarrow> 'db \<Rightarrow> bool response"
  profiles_update :: "string \<Rightarrow> profile_values \<Rightarrow> 'db \<Rightarrow> string option \<times> 'db"
  now_toISOString :: string

text \<open>The requests a loader or the mutator has sent, in order, with the remote check's answer.\<close>

datatype call =
    GetSession
  | ProfilesSelect string
  | ProductsSelect string
  | RpcCanUpdate string "bool response"
  | ProfilesUpdate string profile_values

text \<open>
  The messages contain Latin-1 letters; each is written as the one character of its code
  point (\<open>0xE3\<close> is a with tilde, and so on), as the source's string has one code unit for it.
\<close>

definition msg_not_authenticated :: string where
  "msg_not_authenticated = ''N'' @ [CHR 0xE3] @ ''o autenticado''"

definition msg_wait_30_days :: string where
  "msg_wait_30_days =
     ''Voc'' @ [CHR 0xEA] @ '' s'' @ [CHR 0xF3] @ '' pode alterar seu @ ou telefone ap''
       @ [CHR 0xF3] @ ''s 30 dias da '' @ [CHR 0xFA] @ ''ltima atualiza''
       @ [CHR 0xE7, CHR 0xE3] @ ''o.''"

section \<open>Media-link normalization\<close>

text \<open>
  \<open>convertDropboxUrl\<close> is neither defined nor imported in the file: it is a parameter
  \<open>conv\<close> of everything that calls it.
\<close>

fun convert :: "(string \<Rightarrow> string) \<Rightarrow> jsval \<Rightarrow> jsval" where
  "convert conv (Str s) = Str (conv s)"
| "convert conv v = v"

text \<open>The mutator, lines 170-175.\<close>

definition mutator_normalize :: "(string \<Rightarrow> string) \<Rightarrow> profile_values \<Rightarrow> profile_values" where
  "mutator_normalize conv values =
     (let values1 = (if truthy (avatar_url values)
                     then values\<lparr>avatar_url := convert conv (avatar_url values)\<rparr>
                     else values)
      in if truthy (cover_url values1)
         then values1\<lparr>cover_url := convert conv (cover_url values1)\<rparr>
         else values1)"

section \<open>The profile mutator (updateProfile.mutationFn, lines 166-199)\<close>

record 'db outcome =
  result :: "exn + unit"
  store :: 'db
  calls :: "call list"

text \<open>Lines 193-198: the write, and the throw of its error.\<close>

definition write_profile ::
  "('db, 'p) env \<Rightarrow> string \<Rightarrow> profile_values \<Rightarrow> 'db \<Rightarrow> call list \<Rightarrow> 'db outcome" where
  "write_profile e uid values db sent =
     (case profiles_update e uid values db of
        (err, db') \<Rightarrow>
          \<lparr>result = (case err of Some m \<Rightarrow> Inl (BackendError m) | None \<Rightarrow> Inr ()),
           store = db',
           calls = sent @ [ProfilesUpdate uid values]\<rparr>)"

definition mutationFn ::
  "(string \<Rightarrow> string) \<Rightarrow> ('db, 'p) env \<Rightarrow> profile_values option \<Rightarrow> profile_values \<Rightarrow> 'db
     \<Rightarrow> 'db outcome" where
  "mutationFn conv e profile values0 db =
     (case auth_getSession e of
        None \<Rightarrow> \<lparr>result = Inl (JsError msg_not_authenticated), store = db, calls = [GetSession]\<rparr>
      | Some s \<Rightarrow>
          let values = mutator_normalize conv values0;
              isUpdatingRestricted =
                (username values \<noteq> opt_field username profile
                 \<or> phone values \<noteq> opt_field phone profile)
          in if isUpdatingRestricted
             then (let r = rpc_can_update_basic_info e (user_id s) db;
                       sent = [GetSession, RpcCanUpdate (user_id s) r]
                   in case error r of
                        Some m \<Rightarrow> \<lparr>result = Inl (BackendError m), store = db, calls = sent\<rparr>
                      | None \<Rightarrow>
                          if data r \<noteq> Some True
                          then \<lparr>result = Inl (JsError msg_wait_30_days), store = db,
                                calls = sent\<rparr>
                          else write_profile e (user_id s)
                                 (values\<lparr>basic_info_updated_at := Str (now_toISOString e)\<rparr>)
                                 db sent)
             else write_profile e (user_id s) values db [GetSession])"

text \<open>A backend write among the requests sent.\<close>

fun is_write :: "call \<Rightarrow> bool" where
  "is_write (ProfilesUpdate uid v) = True"
| "is_write c = False"

fun is_rpc :: "call \<Rightarrow> bool" where
  "is_rpc (RpcCanUpdate uid r) = True"
| "is_rpc c = False"

section \<open>The loaders\<close>

text \<open>The profile loader's rewriting of the fetched row, lines 67-74 (\<open>if (data) { ... }\<close>).\<close>

definition loader_normalize ::
  "(string \<Rightarrow> string) \<Rightarrow> profile_values option \<Rightarrow> profile_values option" where
  "loader_normalize conv fetched =
     (case fetched of
        None \<Rightarrow> None
      | Some row \<Rightarrow>
          let row1 = (if truthy (avatar_url row)
                      then row\<lparr>avatar_url := convert conv (avatar_url row)\<rparr>
                      else row);
              row2 = (if truthy (cover_url row1)
                      then row1\<lparr>cover_url := convert conv (cover_url row1)\<rparr>
                      else row1)
          in Some row2)"

text \<open>
  The profile loader (\<open>queryFn\<close> of the query \<open>["profile"]\<close>, lines 55-77): what it
  returns or throws, and the requests it has sent.
\<close>

definition profile_queryFn ::
  "(string \<Rightarrow> string) \<Rightarrow> ('db, 'p) env \<Rightarrow> 'db \<Rightarrow> (exn + profile_values option) \<times> call list" where
  "profile_queryFn conv e db =
     (case auth_getSession e of
        None \<Rightarrow> (Inl (JsError msg_not_authenticated), [GetSession])
      | Some s \<Rightarrow>
          let r = profiles_select e (user_id s) db;
              sent = [GetSession, ProfilesSelect (user_id s)]
          in case error r of
               Some m \<Rightarrow> (Inl (BackendError m), sent)
             | None \<Rightarrow> (Inr (loader_normalize conv (data r)), sent))"

text \<open>
  The products loader (\<open>queryFn\<close> of \<open>["userProducts"]\<close>, lines 82-92). It does not read
  the response's error; \<open>data || []\<close> is the empty list for \<open>null\<close> and the array otherwise.
\<close>

definition userProducts_queryFn ::
  "('db, 'p) env \<Rightarrow> 'db \<Rightarrow> (exn + 'p list) \<times> call list" where
  "userProducts_queryFn e db =
     (case auth_getSession e of
        None \<Rightarrow> (Inr [], [GetSession])
      | Some s \<Rightarrow>
          let r = products_select e (user_id s) db
          in (Inr (case data r of None \<Rightarrow> [] | Some rows \<Rightarrow> rows),
              [GetSession, ProductsSelect (user_id s)]))"

fun is_read :: "call \<Rightarrow> bool" where
  "is_read (ProfilesSelect uid) = True"
| "is_read (ProductsSelect uid) = True"
| "is_read c = False"

section \<open>Event handlers of the page\<close>

record toast =
  title :: string
  description :: string
  variant :: "string option"

text \<open>What a handler does to the world outside the component, in order.\<close>

datatype effect =
    WindowPrompt string string
  | Mutate profile_values
  | ClipboardWriteText string
  | Toast toast
  | ConsoleError string string
  | SetIsLoadingImage bool

fun is_mutate :: "effect \<Rightarrow> bool" where
  "is_mutate (Mutate v) = True"
| "is_mutate x = False"

fun is_toast :: "effect \<Rightarrow> bool" where
  "is_toast (Toast t) = True"
| "is_toast x = False"

fun clipboard_writes :: "effect list \<Rightarrow> string list" where
  "clipboard_writes [] = []"
| "clipboard_writes (ClipboardWriteText s # xs) = s # clipboard_writes xs"
| "clipboard_writes (x # xs) = clipboard_writes xs"

text \<open>A value inside a template literal, \<open>`${v}`\<close>.\<close>

fun template :: "jsval \<Rightarrow> string" where
  "template (Str s) = s"
| "template Null = ''null''"
| "template Undefined = ''undefined''"

text \<open>\<open>v || ''\<close>, the default text of the prompts.\<close>

definition or_empty :: "jsval \<Rightarrow> string" where
  "or_empty v = (if truthy v then template v else [])"

text \<open>
  Lines 126-135. \<open>dialog\<close> is what \<open>window.prompt\<close> returns: \<open>None\<close> is \<open>null\<close>, the
  prompt cancelled. The handler returns the form's values after it, and its effects.
\<close>

definition handleCoverImageClick ::
  "string option \<Rightarrow> profile_values option \<Rightarrow> profile_values \<Rightarrow> profile_values \<times> effect list" where
  "handleCoverImageClick dialog profile form =
     (let asked = WindowPrompt ''Cole aqui o link do Dropbox para a imagem de capa:''
                    (or_empty (opt_field cover_url profile))
      in case dialog of
           None \<Rightarrow> (form, [asked])
         | Some link \<Rightarrow> (form, [asked, Mutate (form\<lparr>cover_url := Str link\<rparr>)]))"

text \<open>Lines 137-143: here the link is first stored in the form (\<open>form.setValue\<close>).\<close>

definition handleAvatarImageClick ::
  "string option \<Rightarrow> profile_values option \<Rightarrow> profile_values \<Rightarrow> profile_values \<times> effect list" where
  "handleAvatarImageClick dialog profile form =
     (let asked = WindowPrompt ''Cole aqui o link do Dropbox para a foto de perfil:''
                    (or_empty (opt_field avatar_url profile))
      in case dialog of
           None \<Rightarrow> (form, [asked])
         | Some link \<Rightarrow>
             (let form' = form\<lparr>avatar_url := Str link\<rparr>
              in (form', [asked, Mutate form'])))"

text \<open>Lines 145-153. No element of the page has this handler.\<close>

definition handleImageError :: "string \<Rightarrow> effect list" where
  "handleImageError err =
     [ConsoleError ''Erro ao carregar a imagem'' err,
      Toast \<lparr>title = ''Erro ao carregar a imagem'',
             description = ''Verifique se o link do Dropbox est'' @ [CHR 0xE1] @ '' correto'',
             variant = Some ''destructive''\<rparr>,
      SetIsLoadingImage False]"

text \<open>Lines 155-163, with \<open>window.location.origin\<close> as a parameter.\<close>

definition copyProfileLink :: "string \<Rightarrow> profile_values option \<Rightarrow> effect list" where
  "copyProfileLink origin profile =
     (if truthy (opt_field username profile)
      then [ClipboardWriteText (origin @ ''/perfil/'' @ template (opt_field username profile)),
            Toast \<lparr>title = ''Link copiado!'',
                   description = ''O link do seu perfil foi copiado para a '' @ [CHR 0xE1]
                     @ ''rea de transfer'' @ [CHR 0xEA] @ ''ncia.'',
                   variant = None\<rparr>]
      else [])"

section \<open>The images and their error handlers (lines 272-304)\<close>

definition defaultAvatarImage :: string where
  "defaultAvatarImage = ''/placeholder.svg''"

definition defaultCoverImage :: string where
  "defaultCoverImage = ''/placeholder.svg''"

text \<open>
  The \<open>onError\<close> handlers of the two \<open>img\<close> elements: the element's new \<open>src\<close>, and
  the handler's effects.
\<close>

definition cover_onError :: "string \<Rightarrow> string \<times> effect list" where
  "cover_onError src = (defaultCoverImage, [])"

definition avatar_onError :: "string \<Rightarrow> string \<times> effect list" where
  "avatar_onError src = (defaultAvatarImage, [])"

section \<open>The view (lines 247-381)\<close>






text \<open>
  Everything that runs code of the component: the clicks on its controls, the image
  errors, the form's submission, and the callbacks of the query and of the mutation.
\<close>

datatype page_event =
    ClickBack
  | ClickLogout
  | ClickAvatarPhoto
  | ClickCoverPhoto
  | SubmitEditProfile
  | ClickCopyProfileLink
  | ClickViewAs
  | ClickExitPreview
  | CoverImageError
  | AvatarImageError
  | ProfileLoaded
  | MutationSuccess
  | MutationError



section \<open>Fixtures for concrete runs\<close>

text \<open>
  A backend whose state is the stored row of the one user \<open>u1\<close>: the write replaces the
  row and reports no error. The remote check answers \<open>allowed\<close>.
\<close>

definition test_env :: "bool \<Rightarrow> (profile_values option, string) env" where
  "test_env allowed =
     \<lparr>auth_getSession = Some \<lparr>user_id = ''u1''\<rparr>,
      profiles_select = (\<lambda>uid db. \<lparr>data = db, error = None\<rparr>),
      products_select = (\<lambda>uid db. \<lparr>data = None, error = None\<rparr>),
      rpc_can_update_basic_info = (\<lambda>uid db. \<lparr>data = Some allowed, error = None\<rparr>),
      profiles_update = (\<lambda>uid v db. (None, Some v)),
      now_toISOString = ''2025-01-01T00:00:00.000Z''\<rparr>"

definition ana :: profile_values where
  "ana =
     \<lparr>full_name = Str ''Ana'', email = Str ''ana@x.test'', phone = Str ''111'',
      birth_date = Str '''', street = Str '''', house_number = Str '''', city = Str '''',
      postal_code = Str '''', avatar_url = Str '''', cover_url = Str '''',
      username = Str ''ana'', bio = Str '''', website = Str '''', status = Str '''',
      basic_info_updated_at = Undefined\<rparr>"

section \<open>Properties of the mutator\<close>

lemma mutator_normalize_username [simp]: "username (mutator_normalize conv v) = username v"
  by (simp add: mutator_normalize_def Let_def)

lemma mutator_normalize_phone [simp]: "phone (mutator_normalize conv v) = phone v"
  by (simp add: mutator_normalize_def Let_def)

lemma mutator_normalize_stamp [simp]:
  "basic_info_updated_at (mutator_normalize conv v) = basic_info_updated_at v"
  by (simp add: mutator_normalize_def Let_def)

lemma calls_write_profile [simp]:
  "calls (write_profile e uid v db sent) = sent @ [ProfilesUpdate uid v]"
  by (simp add: write_profile_def split: prod.splits)

lemma store_write_profile:
  "store (write_profile e uid v db sent) = snd (profiles_update e uid v db)"
  by (simp add: write_profile_def split: prod.splits)

lemma result_write_profile:
  "result (write_profile e uid v db sent)
     = (case fst (profiles_update e uid v db) of
          Some m \<Rightarrow> Inl (BackendError m)
        | None \<Rightarrow> Inr ())"
  by (simp add: write_profile_def split: prod.splits)

text \<open>
  C1. The eligibility check is keyed by the session's user. When the submitted username
  differs from the cached profile's username and the backend's answer to the check for
  that user is \<open>false\<close>, with no error, the mutator sends the check, throws the 30-day
  error and sends nothing else: no write to the backend is made, and the backend's state
  is the one the mutator started from.
\<close>

theorem mutationFn_denied_no_write:
  assumes changed: "username values \<noteq> opt_field username profile"
    and session: "auth_getSession e = Some s"
    and denied: "data (rpc_can_update_basic_info e (user_id s) db) = Some False"
      "error (rpc_can_update_basic_info e (user_id s) db) = None"
  shows "result (mutationFn conv e profile values db) = Inl (JsError msg_wait_30_days)
       \<and> calls (mutationFn conv e profile values db)
           = [GetSession, RpcCanUpdate (user_id s) (rpc_can_update_basic_info e (user_id s) db)]
       \<and> \<not> list_ex is_write (calls (mutationFn conv e profile values db))
       \<and> store (mutationFn conv e profile values db) = db"
proof -
  let ?r = "rpc_can_update_basic_info e (user_id s) db"
  from changed have restricted:
    "username (mutator_normalize conv values) \<noteq> opt_field username profile
     \<or> phone (mutator_normalize conv values) \<noteq> opt_field phone profile"
    by simp
  from denied have refused: "data ?r \<noteq> Some True" by simp
  have run: "mutationFn conv e profile values db =
      \<lparr>result = Inl (JsError msg_wait_30_days), store = db,
       calls = [GetSession, RpcCanUpdate (user_id s) ?r]\<rparr>"
    unfolding mutationFn_def Let_def
    using session restricted refused denied(2) by simp
  show ?thesis unfolding run by simp
qed

theorem mutationFn_denied_no_write_witness:
  "username (ana\<lparr>username := Str ''bia''\<rparr>) \<noteq> opt_field username (Some ana)
   \<and> auth_getSession (test_env False) = Some \<lparr>user_id = ''u1''\<rparr>
   \<and> rpc_can_update_basic_info (test_env False) ''u1'' (Some ana)
       = \<lparr>data = Some False, error = None\<rparr>
   \<and> result (mutationFn id (test_env False) (Some ana) (ana\<lparr>username := Str ''bia''\<rparr>) (Some ana))
       = Inl (JsError msg_wait_30_days)
   \<and> calls (mutationFn id (test_env False) (Some ana) (ana\<lparr>username := Str ''bia''\<rparr>) (Some ana))
       = [GetSession, RpcCanUpdate ''u1'' \<lparr>data = Some False, error = None\<rparr>]
   \<and> store (mutationFn id (test_env False) (Some ana) (ana\<lparr>username := Str ''bia''\<rparr>) (Some ana))
       = Some ana"
proof -
  have changed: "username (ana\<lparr>username := Str ''bia''\<rparr>) \<noteq> opt_field username (Some ana)"
    by (simp add: ana_def opt_field_def)
  have session: "auth_getSession (test_env False) = Some \<lparr>user_id = ''u1''\<rparr>"
    by (simp add: test_env_def)
  have answer: "rpc_can_update_basic_info (test_env False) ''u1'' (Some ana)
       = \<lparr>data = Some False, error = None\<rparr>"
    by (simp add: test_env_def)
  have denied: "data (rpc_can_update_basic_info (test_env False)
                       (user_id \<lparr>user_id = ''u1''\<rparr>) (Some ana)) = Some False"
    "error (rpc_can_update_basic_info (test_env False)
              (user_id \<lparr>user_id = ''u1''\<rparr>) (Some ana)) = None"
    by (simp_all add: answer)
  from mutationFn_denied_no_write [OF changed session denied, of id] changed session answer
  show ?thesis by simp
qed

text \<open>
  C2. When the submitted username and phone both equal the cached profile's username and
  phone, the mutator never sends the eligibility check, and every write it sends carries
  \<open>basic_info_updated_at\<close> as it was submitted.
\<close>

theorem mutationFn_unrestricted_no_check:
  assumes same_username: "username values = opt_field username profile"
    and same_phone: "phone values = opt_field phone profile"
  shows "\<not> list_ex is_rpc (calls (mutationFn conv e profile values db))
       \<and> (\<forall>uid v. ProfilesUpdate uid v \<in> set (calls (mutationFn conv e profile values db))
            \<longrightarrow> basic_info_updated_at v = basic_info_updated_at values)"
  using assms
  by (cases "auth_getSession e") (simp_all add: mutationFn_def)

theorem mutationFn_unrestricted_no_check_witness:
  "username (ana\<lparr>bio := Str ''oi''\<rparr>) = opt_field username (Some ana)
   \<and> phone (ana\<lparr>bio := Str ''oi''\<rparr>) = opt_field phone (Some ana)
   \<and> calls (mutationFn id (test_env False) (Some ana) (ana\<lparr>bio := Str ''oi''\<rparr>) (Some ana))
       = [GetSession, ProfilesUpdate ''u1'' (ana\<lparr>bio := Str ''oi''\<rparr>)]
   \<and> \<not> list_ex is_rpc
         (calls (mutationFn id (test_env False) (Some ana) (ana\<lparr>bio := Str ''oi''\<rparr>) (Some ana)))
   \<and> basic_info_updated_at (ana\<lparr>bio := Str ''oi''\<rparr>) = Undefined"
proof -
  have same_username: "username (ana\<lparr>bio := Str ''oi''\<rparr>) = opt_field username (Some ana)"
    and same_phone: "phone (ana\<lparr>bio := Str ''oi''\<rparr>) = opt_field phone (Some ana)"
    by (simp_all add: opt_field_def)
  have sent: "calls (mutationFn id (test_env False) (Some ana) (ana\<lparr>bio := Str ''oi''\<rparr>) (Some ana))
       = [GetSession, ProfilesUpdate ''u1'' (ana\<lparr>bio := Str ''oi''\<rparr>)]"
    by (simp add: mutationFn_def test_env_def ana_def opt_field_def mutator_normalize_def Let_def)
  from mutationFn_unrestricted_no_check [OF same_username same_phone, of id "test_env False" "Some ana"]
    same_username same_phone sent
  show ?thesis by (simp add: ana_def)
qed

text \<open>
  C3. When the submitted phone differs from the cached profile's phone and the backend's
  answer to the eligibility check for the session's user is \<open>true\<close>, with no error, the
  mutator sends the check and then one write to the backend, for that user. The field set
  written has the submitted phone and \<open>basic_info_updated_at\<close> set to the current time;
  the backend's state after the mutator is the one this write leaves, and the mutator
  throws only if the write reports an error.
\<close>

theorem mutationFn_allowed_writes_stamp:
  assumes changed: "phone values \<noteq> opt_field phone profile"
    and session: "auth_getSession e = Some s"
    and allowed: "data (rpc_can_update_basic_info e (user_id s) db) = Some True"
      "error (rpc_can_update_basic_info e (user_id s) db) = None"
  shows "\<exists>v. v = (mutator_normalize conv values)\<lparr>basic_info_updated_at := Str (now_toISOString e)\<rparr>
           \<and> phone v = phone values
           \<and> basic_info_updated_at v = Str (now_toISOString e)
           \<and> calls (mutationFn conv e profile values db)
               = [GetSession,
                  RpcCanUpdate (user_id s) (rpc_can_update_basic_info e (user_id s) db),
                  ProfilesUpdate (user_id s) v]
           \<and> store (mutationFn conv e profile values db)
               = snd (profiles_update e (user_id s) v db)
           \<and> result (mutationFn conv e profile values db)
               = (case fst (profiles_update e (user_id s) v db) of
                    Some m \<Rightarrow> Inl (BackendError m)
                  | None \<Rightarrow> Inr ())"
proof -
  let ?r = "rpc_can_update_basic_info e (user_id s) db"
  let ?v = "(mutator_normalize conv values)\<lparr>basic_info_updated_at := Str (now_toISOString e)\<rparr>"
  from changed have restricted:
    "username (mutator_normalize conv values) \<noteq> opt_field username profile
     \<or> phone (mutator_normalize conv values) \<noteq> opt_field phone profile"
    by simp
  have run: "mutationFn conv e profile values db
      = write_profile e (user_id s) ?v db [GetSession, RpcCanUpdate (user_id s) ?r]"
    unfolding mutationFn_def Let_def
    using session restricted allowed by simp
  have "phone ?v = phone values" and "basic_info_updated_at ?v = Str (now_toISOString e)"
    by simp_all
  moreover have "calls (mutationFn conv e profile values db)
      = [GetSession, RpcCanUpdate (user_id s) ?r, ProfilesUpdate (user_id s) ?v]"
    unfolding run by simp
  moreover have "store (mutationFn conv e profile values db)
      = snd (profiles_update e (user_id s) ?v db)"
    unfolding run by (rule store_write_profile)
  moreover have "result (mutationFn conv e profile values db)
      = (case fst (profiles_update e (user_id s) ?v db) of
           Some m \<Rightarrow> Inl (BackendError m)
         | None \<Rightarrow> Inr ())"
    unfolding run by (rule result_write_profile)
  ultimately show ?thesis by blast
qed

theorem mutationFn_allowed_writes_stamp_witness:
  "phone (ana\<lparr>phone := Str ''222''\<rparr>) \<noteq> opt_field phone (Some ana)
   \<and> auth_getSession (test_env True) = Some \<lparr>user_id = ''u1''\<rparr>
   \<and> rpc_can_update_basic_info (test_env True) ''u1'' (Some ana)
       = \<lparr>data = Some True, error = None\<rparr>
   \<and> calls (mutationFn id (test_env True) (Some ana) (ana\<lparr>phone := Str ''222''\<rparr>) (Some ana))
       = [GetSession,
          RpcCanUpdate ''u1'' \<lparr>data = Some True, error = None\<rparr>,
          ProfilesUpdate ''u1''
            (ana\<lparr>phone := Str ''222'', basic_info_updated_at := Str ''2025-01-01T00:00:00.000Z''\<rparr>)]
   \<and> store (mutationFn id (test_env True) (Some ana) (ana\<lparr>phone := Str ''222''\<rparr>) (Some ana))
       = Some (ana\<lparr>phone := Str ''222'',
                    basic_info_updated_at := Str ''2025-01-01T00:00:00.000Z''\<rparr>)
   \<and> result (mutationFn id (test_env True) (Some ana) (ana\<lparr>phone := Str ''222''\<rparr>) (Some ana))
       = Inr ()"
proof -
  have changed: "phone (ana\<lparr>phone := Str ''222''\<rparr>) \<noteq> opt_field phone (Some ana)"
    by (simp add: ana_def opt_field_def)
  have session: "auth_getSession (test_env True) = Some \<lparr>user_id = ''u1''\<rparr>"
    by (simp add: test_env_def)
  have answer: "rpc_can_update_basic_info (test_env True) ''u1'' (Some ana)
       = \<lparr>data = Some True, error = None\<rparr>"
    by (simp add: test_env_def)
  have allowed: "data (rpc_can_update_basic_info (test_env True)
                        (user_id \<lparr>user_id = ''u1''\<rparr>) (Some ana)) = Some True"
    "error (rpc_can_update_basic_info (test_env True)
              (user_id \<lparr>user_id = ''u1''\<rparr>) (Some ana)) = None"
    by (simp_all add: answer)
  have norm: "mutator_normalize id (ana\<lparr>phone := Str ''222''\<rparr>) = ana\<lparr>phone := Str ''222''\<rparr>"
    by (simp add: mutator_normalize_def ana_def)
  have now: "now_toISOString (test_env True) = ''2025-01-01T00:00:00.000Z''"
    by (simp add: test_env_def)
  have stored: "profiles_update (test_env True) ''u1'' v (Some ana) = (None, Some v)" for v
    by (simp add: test_env_def)
  from mutationFn_allowed_writes_stamp [OF changed session allowed, of id] changed session answer
  show ?thesis by (simp add: norm now stored)
qed

section \<open>Properties of the loaders\<close>

text \<open>
  C4. When no session exists, the profile loader throws the authentication error: it
  returns no data, and it has sent no read to the backend, only the request for the session.
\<close>

theorem profile_queryFn_no_session:
  assumes "auth_getSession e = None"
  shows "fst (profile_queryFn conv e db) = Inl (JsError msg_not_authenticated)
       \<and> (\<forall>row. fst (profile_queryFn conv e db) \<noteq> Inr row)
       \<and> snd (profile_queryFn conv e db) = [GetSession]
       \<and> \<not> list_ex is_read (snd (profile_queryFn conv e db))"
  using assms by (simp add: profile_queryFn_def)

theorem profile_queryFn_no_session_witness:
  "auth_getSession ((test_env True)\<lparr>auth_getSession := None\<rparr>) = None
   \<and> profile_queryFn id ((test_env True)\<lparr>auth_getSession := None\<rparr>) (Some ana)
       = (Inl (JsError msg_not_authenticated), [GetSession])"
proof -
  have no_session: "auth_getSession ((test_env True)\<lparr>auth_getSession := None\<rparr>) = None"
    by simp
  from profile_queryFn_no_session [OF no_session, of id "Some ana"] no_session
  show ?thesis by (simp add: prod_eq_iff)
qed

text \<open>
  C9. The products loader returns the empty list when no session exists, and when the
  backend's response has \<open>null\<close> data; in neither case does it throw.
\<close>

theorem userProducts_queryFn_empty:
  assumes "auth_getSession e = None
         \<or> (\<exists>s. auth_getSession e = Some s \<and> data (products_select e (user_id s) db) = None)"
  shows "fst (userProducts_queryFn e db) = Inr []"
  using assms
proof
  assume "auth_getSession e = None"
  then show ?thesis by (simp add: userProducts_queryFn_def)
next
  assume "\<exists>s. auth_getSession e = Some s \<and> data (products_select e (user_id s) db) = None"
  then obtain s where "auth_getSession e = Some s"
    and "data (products_select e (user_id s) db) = None" by blast
  then show ?thesis by (simp add: userProducts_queryFn_def Let_def)
qed

theorem userProducts_queryFn_empty_witness:
  "auth_getSession ((test_env True)\<lparr>auth_getSession := None\<rparr>) = None
   \<and> fst (userProducts_queryFn ((test_env True)\<lparr>auth_getSession := None\<rparr>) (Some ana)) = Inr []
   \<and> auth_getSession (test_env True) = Some \<lparr>user_id = ''u1''\<rparr>
   \<and> data (products_select (test_env True) ''u1'' (Some ana)) = None
   \<and> fst (userProducts_queryFn (test_env True) (Some ana)) = Inr []"
proof -
  have no_session: "auth_getSession ((test_env True)\<lparr>auth_getSession := None\<rparr>) = None"
    by simp
  have session: "auth_getSession (test_env True) = Some \<lparr>user_id = ''u1''\<rparr>"
    and null_data: "data (products_select (test_env True) ''u1'' (Some ana)) = None"
    by (simp_all add: test_env_def)
  have "fst (userProducts_queryFn ((test_env True)\<lparr>auth_getSession := None\<rparr>) (Some ana)) = Inr []"
    by (rule userProducts_queryFn_empty) (simp add: no_session)
  moreover have "fst (userProducts_queryFn (test_env True) (Some ana)) = Inr []"
    by (rule userProducts_queryFn_empty) (simp add: session null_data)
  ultimately show ?thesis using no_session session null_data by simp
qed



section \<open>Properties of the handlers\<close>

text \<open>
  C5. For a profile with a non-empty username \<open>u\<close>, copying the profile link writes to the
  clipboard exactly once, and what it writes is the origin, then \<open>/perfil/\<close>, then \<open>u\<close>.
\<close>

theorem copyProfileLink_writes_url:
  assumes "profile = Some p" and "username p = Str u" and "u \<noteq> []"
  shows "clipboard_writes (copyProfileLink origin profile) = [origin @ ''/perfil/'' @ u]"
  using assms by (simp add: copyProfileLink_def opt_field_def)

theorem copyProfileLink_writes_url_witness:
  "username ana = Str ''ana'' \<and> ''ana'' \<noteq> []
   \<and> clipboard_writes (copyProfileLink ''https://x.test'' (Some ana)) = [''https://x.test/perfil/ana'']"
proof -
  have name: "username ana = Str ''ana''" by (simp add: ana_def)
  have nonempty: "''ana'' \<noteq> []" by simp
  from copyProfileLink_writes_url [OF refl name nonempty, of "''https://x.test''"] name
  show ?thesis by simp
qed

text \<open>
  C10. When the prompt for a new cover or avatar link is cancelled, the handler invokes
  no mutation and leaves the form's values as they were. When the prompt returns a
  string, also the empty one, the handler invokes the mutation exactly once, with the
  form's values in which that string is the cover link, or the avatar link.
\<close>

theorem prompt_handlers_mutate:
  "fst (handleCoverImageClick None profile form) = form
   \<and> filter is_mutate (snd (handleCoverImageClick None profile form)) = []
   \<and> fst (handleAvatarImageClick None profile form) = form
   \<and> filter is_mutate (snd (handleAvatarImageClick None profile form)) = []
   \<and> filter is_mutate (snd (handleCoverImageClick (Some link) profile form))
       = [Mutate (form\<lparr>cover_url := Str link\<rparr>)]
   \<and> filter is_mutate (snd (handleAvatarImageClick (Some link) profile form))
       = [Mutate (form\<lparr>avatar_url := Str link\<rparr>)]"
  by (simp add: handleCoverImageClick_def handleAvatarImageClick_def Let_def)

theorem prompt_handlers_mutate_witness:
  "filter is_mutate (snd (handleCoverImageClick (Some '''') (Some ana) ana))
     = [Mutate (ana\<lparr>cover_url := Str ''''\<rparr>)]
   \<and> handleAvatarImageClick None (Some ana) ana
     = (ana, [WindowPrompt ''Cole aqui o link do Dropbox para a foto de perfil:'' ''''])"
proof -
  have "handleAvatarImageClick None (Some ana) ana
     = (ana, [WindowPrompt ''Cole aqui o link do Dropbox para a foto de perfil:'' ''''])"
    by (simp add: handleAvatarImageClick_def or_empty_def opt_field_def ana_def)
  with prompt_handlers_mutate [of "Some ana" ana "''''"]
  show ?thesis by simp
qed

text \<open>
  C8, as the code has it. When the cover or the avatar fails to load, its \<open>onError\<close>
  handler puts the placeholder in the element's \<open>src\<close> and does nothing else: no
  notification is raised. The handler that raises the warning, \<open>handleImageError\<close>, is
  attached to neither image.
\<close>

theorem image_onError_raises_no_toast:
  "cover_onError ''https://x.test/capa.jpg'' = (''/placeholder.svg'', [])
   \<and> avatar_onError ''https://x.test/foto.jpg'' = (''/placeholder.svg'', [])
   \<and> filter is_toast (snd (cover_onError ''https://x.test/capa.jpg'')) = []
   \<and> filter is_toast (snd (avatar_onError ''https://x.test/foto.jpg'')) = []
   \<and> length (filter is_toast (handleImageError ''404'')) = 1"
  by (simp add: cover_onError_def avatar_onError_def defaultCoverImage_def
      defaultAvatarImage_def handleImageError_def)

section \<open>Properties of the view\<close>




end
